theory Spec2Isabelle
  imports Complex_Main "HOL-Library.Char_ord" "HOL-Library.List_Lexorder" "HOL-Library.Multiset"
begin

section \<open>Python values shared by the handlers\<close>

text \<open>
  Exceptions that the modelled code paths can raise. A handler either answers with a JSON
  document and a status code, or lets an exception escape to the web framework.
\<close>

datatype py_exn =
    ValueError | TypeError | OverflowError | AttributeError
  | IntegrityError | OperationalError | DuplicateKeyError

text \<open>
  A string is the list of its code points, and a \<open>char\<close> is a code point from U+0000 to
  U+00FF: the model has the strings of that range. On it, \<open>str.isspace\<close> holds of the
  twelve characters below, and \<open>str.lower\<close> changes the letters A to Z and the
  capital letters from U+00C0 to U+00DE, the multiplication sign U+00D7 apart.
\<close>

definition is_space :: "char \<Rightarrow> bool" where
  "is_space c = (c \<in> set [CHR 0x09, CHR 0x0A, CHR 0x0B, CHR 0x0C, CHR 0x0D,
                            CHR 0x1C, CHR 0x1D, CHR 0x1E, CHR 0x1F, CHR 0x20,
                            CHR 0x85, CHR 0xA0])"

text \<open>Removing from both ends the characters that count as blank.\<close>

definition strip_by :: "(char \<Rightarrow> bool) \<Rightarrow> string \<Rightarrow> string" where
  "strip_by blank s = rev (dropWhile blank (rev (dropWhile blank s)))"

definition strip :: "string \<Rightarrow> string" where
  "strip s = strip_by is_space s"

definition upper_letters :: string where
  "upper_letters = ''ABCDEFGHIJKLMNOPQRSTUVWXYZ'' @
       [CHR 0xC0, CHR 0xC1, CHR 0xC2, CHR 0xC3, CHR 0xC4, CHR 0xC5, CHR 0xC6, CHR 0xC7,
        CHR 0xC8, CHR 0xC9, CHR 0xCA, CHR 0xCB, CHR 0xCC, CHR 0xCD, CHR 0xCE, CHR 0xCF,
        CHR 0xD0, CHR 0xD1, CHR 0xD2, CHR 0xD3, CHR 0xD4, CHR 0xD5, CHR 0xD6, CHR 0xD8,
        CHR 0xD9, CHR 0xDA, CHR 0xDB, CHR 0xDC, CHR 0xDD, CHR 0xDE]"

definition lower_letters :: string where
  "lower_letters = ''abcdefghijklmnopqrstuvwxyz'' @
       [CHR 0xE0, CHR 0xE1, CHR 0xE2, CHR 0xE3, CHR 0xE4, CHR 0xE5, CHR 0xE6, CHR 0xE7,
        CHR 0xE8, CHR 0xE9, CHR 0xEA, CHR 0xEB, CHR 0xEC, CHR 0xED, CHR 0xEE, CHR 0xEF,
        CHR 0xF0, CHR 0xF1, CHR 0xF2, CHR 0xF3, CHR 0xF4, CHR 0xF5, CHR 0xF6, CHR 0xF8,
        CHR 0xF9, CHR 0xFA, CHR 0xFB, CHR 0xFC, CHR 0xFD, CHR 0xFE]"

definition lower_char :: "char \<Rightarrow> char" where
  "lower_char c =
     (case map_of (zip upper_letters lower_letters) c of Some l \<Rightarrow> l | None \<Rightarrow> c)"

definition lower :: "string \<Rightarrow> string" where
  "lower s = map lower_char s"

section \<open>scheduler.py\<close>

text \<open>
  A \<open>datetime.date\<close> is modelled by its proleptic Gregorian ordinal: \<open>date.min\<close>
  (0001-01-01) is 1 and \<open>date.max\<close> (9999-12-31) is 3652059. Adding a \<open>timedelta\<close> of
  whole days raises \<open>OverflowError\<close> when the result leaves that range. The ISO rendering
  of the due date is not modelled: the result carries the date itself.
\<close>

definition date_min :: int where
  "date_min = 1"

definition date_max :: int where
  "date_max = 3652059"

definition valid_date :: "int \<Rightarrow> bool" where
  "valid_date d = (date_min \<le> d \<and> d \<le> date_max)"

definition date_plus_days :: "int \<Rightarrow> int \<Rightarrow> py_exn + int" where
  "date_plus_days d n =
     (let r = d + n in if date_min \<le> r \<and> r \<le> date_max then Inr r else Inl OverflowError)"

record sched_item =
  days_after_sowing :: int
  pesticide :: string
  item_note :: string

definition wheat_schedule :: "sched_item list" where
  "wheat_schedule =
     [\<lparr>days_after_sowing = 10, pesticide = ''Herbicide A'', item_note = ''Weed control''\<rparr>,
      \<lparr>days_after_sowing = 25, pesticide = ''Fungicide B'', item_note = ''Rust prevention''\<rparr>,
      \<lparr>days_after_sowing = 40, pesticide = ''Insecticide C'', item_note = ''Aphid control''\<rparr>]"

definition rice_schedule :: "sched_item list" where
  "rice_schedule =
     [\<lparr>days_after_sowing = 15, pesticide = ''Herbicide R1'', item_note = ''Weed control''\<rparr>,
      \<lparr>days_after_sowing = 30, pesticide = ''Fungicide R2'', item_note = ''Blast prevention''\<rparr>]"

definition SCHEDULES :: "(string \<times> sched_item list) list" where
  "SCHEDULES = [(''Wheat'', wheat_schedule), (''Rice'', rice_schedule)]"

text \<open>\<open>crop or 'Wheat'\<close>: the empty string is falsy.\<close>

definition or_wheat :: "string \<Rightarrow> string" where
  "or_wheat crop = (if crop = [] then ''Wheat'' else crop)"

definition get_pesticide_schedule :: "string \<Rightarrow> sched_item list" where
  "get_pesticide_schedule crop =
     (let crop' = strip (or_wheat crop)
      in case map_of SCHEDULES crop' of Some s \<Rightarrow> s | None \<Rightarrow> wheat_schedule)"

text \<open>
  The result of \<open>next_pesticide_recommendation\<close>: the dictionary
  \<open>{"due_date": ..., **item}\<close>, or the dictionary holding only the message
  \<open>No upcoming tasks in schedule\<close>.
\<close>

datatype recommendation = Due int sched_item | NoUpcomingTasks

text \<open>The \<open>for item in schedule\<close> loop, with its early return.\<close>

fun schedule_loop :: "int \<Rightarrow> int \<Rightarrow> sched_item list \<Rightarrow> py_exn + recommendation" where
  "schedule_loop sowing_date from_date [] = Inr NoUpcomingTasks"
| "schedule_loop sowing_date from_date (item # rest) =
     (case date_plus_days sowing_date (days_after_sowing item) of
        Inl e \<Rightarrow> Inl e
      | Inr due_date \<Rightarrow>
          if due_date \<ge> from_date then Inr (Due due_date item)
          else schedule_loop sowing_date from_date rest)"

text \<open>The body of the function once the schedule has been looked up.\<close>

definition recommend_in :: "sched_item list \<Rightarrow> int \<Rightarrow> py_exn + recommendation" where
  "recommend_in schedule from_date =
     (case date_plus_days from_date (- 7) of
        Inl e \<Rightarrow> Inl e
      | Inr sowing_date \<Rightarrow> schedule_loop sowing_date from_date schedule)"

definition next_pesticide_recommendation :: "string \<Rightarrow> int \<Rightarrow> py_exn + recommendation" where
  "next_pesticide_recommendation crop from_date =
     (let crop' = strip (or_wheat crop);
          schedule = get_pesticide_schedule crop'
      in recommend_in schedule from_date)"

text \<open>
  The recommendation as the specification words it: sowing seven days before the start
  date, each due date the sowing date plus the item's offset, the first item in schedule
  order that is due on or after the start date, and the sentinel when there is none.
\<close>

definition spec_next_recommendation :: "sched_item list \<Rightarrow> int \<Rightarrow> recommendation" where
  "spec_next_recommendation schedule from_date =
     (let sowing_date = from_date - 7
      in case find (\<lambda>item. sowing_date + days_after_sowing item \<ge> from_date) schedule of
           None \<Rightarrow> NoUpcomingTasks
         | Some item \<Rightarrow> Due (sowing_date + days_after_sowing item) item)"

text \<open>
  The items whose due date the search computes: those that come before the first item due
  on or after the start date, and that item.
\<close>

fun examined :: "int \<Rightarrow> int \<Rightarrow> sched_item list \<Rightarrow> sched_item list" where
  "examined sowing_date from_date [] = []"
| "examined sowing_date from_date (item # rest) =
     (if sowing_date + days_after_sowing item \<ge> from_date then [item]
      else item # examined sowing_date from_date rest)"

section \<open>app.py: values crossing the HTTP boundary\<close>

text \<open>
  Floating-point numbers are a parameter \<open>'f\<close> of the model. What Python's \<open>float\<close>
  makes of a string and of an integer is supplied by a table of coercions: \<open>None\<close> from
  \<open>float_of_str\<close> stands for \<open>ValueError\<close>, \<open>None\<close> from \<open>float_of_int\<close> for
  \<open>OverflowError\<close>. The table also tells which floats are not a number.
\<close>

datatype 'f json =
    JNull | JBool bool | JInt int | JFloat 'f | JStr string
  | JArr "'f json list" | JObj "(string \<times> 'f json) list"

record 'f float_ops =
  float_of_str :: "string \<Rightarrow> 'f option"
  float_of_int :: "int \<Rightarrow> 'f option"
  float_is_nan :: "'f \<Rightarrow> bool"

text \<open>
  A handler's outcome: \<open>jsonify(...)\<close> with its status code, or an exception that leaves
  the handler uncaught.
\<close>

datatype 'f response = Json nat "'f json" | Unhandled py_exn

text \<open>\<open>float(x)\<close> for a value decoded from JSON.\<close>

fun py_float :: "'f float_ops \<Rightarrow> 'f json \<Rightarrow> py_exn + 'f" where
  "py_float fl JNull = Inl TypeError"
| "py_float fl (JBool b) =
     (case float_of_int fl (if b then 1 else 0) of None \<Rightarrow> Inl OverflowError | Some x \<Rightarrow> Inr x)"
| "py_float fl (JInt n) =
     (case float_of_int fl n of None \<Rightarrow> Inl OverflowError | Some x \<Rightarrow> Inr x)"
| "py_float fl (JFloat x) = Inr x"
| "py_float fl (JStr s) =
     (case float_of_str fl s of None \<Rightarrow> Inl ValueError | Some x \<Rightarrow> Inr x)"
| "py_float fl (JArr xs) = Inl TypeError"
| "py_float fl (JObj kvs) = Inl TypeError"

text \<open>
  \<open>int(s)\<close> for a string. Blanks are skipped at both ends: the six that C's
  \<open>isspace\<close> knows, and the blanks beyond U+007F, which \<open>int\<close> turns into spaces first;
  the separators U+001C to U+001F are not among them. Then comes at most one sign, then
  decimal digits, where single underscores may separate digits. A string of more than
  4300 digits is refused, the interpreter's default limit.
\<close>

definition c_space :: "char \<Rightarrow> bool" where
  "c_space c = (c \<in> set [CHR 0x09, CHR 0x0A, CHR 0x0B, CHR 0x0C, CHR 0x0D, CHR 0x20])"

definition int_space :: "char \<Rightarrow> bool" where
  "int_space c = (c_space c \<or> c = CHR 0x85 \<or> c = CHR 0xA0)"

definition digit_val :: "char \<Rightarrow> nat option" where
  "digit_val c = map_of (zip ''0123456789'' [0, 1, 2, 3, 4, 5, 6, 7, 8, 9]) c"

fun digits_value :: "string \<Rightarrow> nat \<Rightarrow> bool \<Rightarrow> nat option" where
  "digits_value [] acc after_digit = (if after_digit then Some acc else None)"
| "digits_value (c # cs) acc after_digit =
     (case digit_val c of
        Some d \<Rightarrow> digits_value cs (10 * acc + d) True
      | None \<Rightarrow>
          if c = CHR ''_'' \<and> after_digit \<and> cs \<noteq> [] then digits_value cs acc False
          else None)"

definition max_str_digits :: nat where
  "max_str_digits = 4300"

definition int_body :: "string \<Rightarrow> nat option" where
  "int_body b =
     (if max_str_digits < length (filter (\<lambda>c. digit_val c \<noteq> None) b) then None
      else digits_value b 0 False)"

definition py_int :: "string \<Rightarrow> int option" where
  "py_int s =
     (case strip_by int_space s of
        [] \<Rightarrow> None
      | c # cs \<Rightarrow>
          if c = CHR ''-'' then map_option (\<lambda>n. - int n) (int_body cs)
          else if c = CHR ''+'' then map_option int (int_body cs)
          else map_option int (int_body (c # cs)))"

text \<open>
  \<open>bytes.fromhex(s)\<close>: pairs of hexadecimal digits, with any of C's blanks before, between
  and after the pairs. The bytes are kept as their lower-case hexadecimal text.
\<close>

definition is_hex :: "char \<Rightarrow> bool" where
  "is_hex c = (c \<in> set ''0123456789abcdefABCDEF'')"

fun fromhex :: "string \<Rightarrow> string option" where
  "fromhex [] = Some []"
| "fromhex [c] = (if c_space c then Some [] else None)"
| "fromhex (c # d # cs) =
     (if c_space c then fromhex (d # cs)
      else if is_hex c \<and> is_hex d
        then map_option (\<lambda>r. lower_char c # lower_char d # r) (fromhex cs)
      else None)"

text \<open>
  \<open>bson.ObjectId(s)\<close> for a string: the string must have 24 characters and
  \<open>bytes.fromhex\<close> must accept it; otherwise \<open>InvalidId\<close> is raised, which the handler
  reports with the text of the exception. The identifier is kept as the hexadecimal text
  of its bytes, which is what \<open>str\<close> gives back.
\<close>

definition ObjectId :: "string \<Rightarrow> string option" where
  "ObjectId s = (if length s = 24 then fromhex s else None)"

text \<open>
  \<open>repr(s)\<close>, with which the exception quotes the id: in double quotes when the string
  has a single quote and no double quote, in single quotes otherwise; the quote and the
  backslash escaped, tab, newline and return by their letters, and every other character
  that is not printable as \<open>\xhh\<close>.
\<close>

definition printable :: "char \<Rightarrow> bool" where
  "printable c =
     (let n = (of_char c :: nat)
      in (32 \<le> n \<and> n < 127) \<or> (161 \<le> n \<and> n \<noteq> 173))"

definition hex2 :: "char \<Rightarrow> string" where
  "hex2 c =
     (let n = (of_char c :: nat)
      in [''0123456789abcdef'' ! (n div 16), ''0123456789abcdef'' ! (n mod 16)])"

definition repr_char :: "char \<Rightarrow> char \<Rightarrow> string" where
  "repr_char quote c =
     (if c = quote \<or> c = CHR 0x5C then [CHR 0x5C, c]
      else if c = CHR 0x09 then [CHR 0x5C, CHR ''t'']
      else if c = CHR 0x0A then [CHR 0x5C, CHR ''n'']
      else if c = CHR 0x0D then [CHR 0x5C, CHR ''r'']
      else if printable c then [c]
      else [CHR 0x5C, CHR ''x''] @ hex2 c)"

definition py_repr :: "string \<Rightarrow> string" where
  "py_repr s =
     (let quote = (if CHR 0x27 \<in> set s \<and> CHR 0x22 \<notin> set s then CHR 0x22 else CHR 0x27)
      in [quote] @ concat (map (repr_char quote) s) @ [quote])"

definition invalid_oid_text :: "string \<Rightarrow> string" where
  "invalid_oid_text s =
     py_repr s @
     '' is not a valid ObjectId, it must be a 12-byte input or a 24-character hex string''"

section \<open>app.py: the two stores\<close>

text \<open>
  The relational store: the rows of table \<open>entries\<close> in insertion order and the counter
  that \<open>AUTOINCREMENT\<close> keeps of the largest row id ever used. Columns declared
  \<open>NOT NULL\<close> hold plain values; \<open>note\<close> may be \<open>NULL\<close>.
\<close>

record 'f entry_row =
  row_id :: int
  row_date :: string
  row_type :: string
  row_category :: string
  row_amount :: 'f
  row_note :: "string option"

record 'f sqlite_db =
  entries :: "'f entry_row list"
  sequence :: int

text \<open>
  The document store: the documents of the collection in insertion order. Nothing
  constrains the fields; \<open>None\<close> is a stored \<open>null\<close>.
\<close>

record 'f mongo_doc =
  doc_id :: string
  doc_date :: string
  doc_type :: "string option"
  doc_category :: "string option"
  doc_amount :: 'f
  doc_note :: "string option"

text \<open>\<open>USE_MONGO\<close> is fixed when the module is loaded: a store is one or the other.\<close>

datatype 'f store = Relational "'f sqlite_db" | Document "'f mongo_doc list"

definition int64_min :: int where
  "int64_min = - 9223372036854775808"

definition int64_max :: int where
  "int64_max = 9223372036854775807"

text \<open>
  \<open>INSERT INTO entries (date, type, category, amount, note) VALUES (?,?,?,?,?)\<close>. The new
  id is one more than the largest id ever used; the insert fails when that id would pass
  the largest 64-bit integer, when a \<open>NOT NULL\<close> column would receive \<open>NULL\<close>, and when
  \<open>CHECK(type IN ('expense','income'))\<close> fails. The handler always binds a date and an
  amount; type and category can be \<open>None\<close>, and an amount that is not a number is bound
  as \<open>NULL\<close>.
\<close>

definition sql_insert ::
  "'f float_ops \<Rightarrow> string \<Rightarrow> string option \<Rightarrow> string option \<Rightarrow> 'f \<Rightarrow> string option
     \<Rightarrow> 'f sqlite_db \<Rightarrow> py_exn + 'f sqlite_db" where
  "sql_insert fl d t c a n db =
     (let top = fold max (map row_id (entries db)) (sequence db)
      in if top \<ge> int64_max then Inl OperationalError
         else if float_is_nan fl a then Inl IntegrityError
         else case (t, c) of
           (Some t', Some c') \<Rightarrow>
             if t' = ''expense'' \<or> t' = ''income'' then
               Inr (db\<lparr>entries := entries db @
                          [\<lparr>row_id = top + 1, row_date = d, row_type = t', row_category = c',
                            row_amount = a, row_note = n\<rparr>],
                        sequence := top + 1\<rparr>)
             else Inl IntegrityError
         | _ \<Rightarrow> Inl IntegrityError)"

text \<open>
  \<open>DELETE FROM entries WHERE id = ?\<close>. Binding a Python integer outside the 64-bit range
  raises \<open>OverflowError\<close> before the statement runs.
\<close>

definition sql_delete :: "int \<Rightarrow> 'f sqlite_db \<Rightarrow> py_exn + 'f sqlite_db" where
  "sql_delete n db =
     (if int64_min \<le> n \<and> n \<le> int64_max
      then Inr (db\<lparr>entries := filter (\<lambda>r. row_id r \<noteq> n) (entries db)\<rparr>)
      else Inl OverflowError)"

text \<open>
  Sorting as the stores do it: an insertion sort that keeps the stored order among rows
  the comparison does not separate.
\<close>

fun insert_sorted :: "('a \<Rightarrow> 'a \<Rightarrow> bool) \<Rightarrow> 'a \<Rightarrow> 'a list \<Rightarrow> 'a list" where
  "insert_sorted before x [] = [x]"
| "insert_sorted before x (y # ys) =
     (if before x y then x # y # ys else y # insert_sorted before x ys)"

definition sort_stable :: "('a \<Rightarrow> 'a \<Rightarrow> bool) \<Rightarrow> 'a list \<Rightarrow> 'a list" where
  "sort_stable before xs = foldr (insert_sorted before) xs []"

text \<open>\<open>ORDER BY date DESC, id DESC\<close>; text compares byte by byte.\<close>

definition row_before :: "'f entry_row \<Rightarrow> 'f entry_row \<Rightarrow> bool" where
  "row_before a b =
     (row_date a > row_date b \<or> (row_date a = row_date b \<and> row_id a \<ge> row_id b))"

definition sql_select_ordered :: "'f sqlite_db \<Rightarrow> 'f entry_row list" where
  "sql_select_ordered db = sort_stable row_before (entries db)"

text \<open>
  \<open>find({}, sort=[('date', -1)])\<close>: the query asks for the documents by date, descending,
  and for nothing else. In which order documents with equal dates come is the store's
  choice, so the cursor is a parameter of the model, bound by what the query asks for.
\<close>

type_synonym 'f cursor = "'f mongo_doc list \<Rightarrow> 'f mongo_doc list"

definition doc_before :: "'f mongo_doc \<Rightarrow> 'f mongo_doc \<Rightarrow> bool" where
  "doc_before a b = (doc_date a \<ge> doc_date b)"

definition sorts_by_date_desc :: "'f cursor \<Rightarrow> bool" where
  "sorts_by_date_desc cursor =
     (\<forall>docs. mset (cursor docs) = mset docs \<and> sorted_wrt doc_before (cursor docs))"

text \<open>
  Two cursors that do as asked. One leaves documents with equal dates in the order of
  insertion, as a scan of the collection followed by a stable sort does; the other
  reverses it, as a backward scan of an index on \<open>date\<close> does.
\<close>

definition find_by_collection_scan :: "'f cursor" where
  "find_by_collection_scan docs = sort_stable doc_before docs"

definition find_by_index_scan :: "'f cursor" where
  "find_by_index_scan docs = sort_stable (\<lambda>a b. doc_date a > doc_date b) docs"

text \<open>
  \<open>insert_one(doc)\<close>: the driver gives the document a fresh \<open>_id\<close>; the unique index on
  \<open>_id\<close> rejects a duplicate.
\<close>

definition insert_one :: "'f mongo_doc \<Rightarrow> 'f mongo_doc list \<Rightarrow> py_exn + 'f mongo_doc list" where
  "insert_one doc docs =
     (if doc_id doc \<in> set (map doc_id docs) then Inl DuplicateKeyError else Inr (docs @ [doc]))"

text \<open>\<open>delete_one({"_id": oid})\<close>: removes the first match, if any.\<close>

fun delete_one :: "string \<Rightarrow> 'f mongo_doc list \<Rightarrow> 'f mongo_doc list" where
  "delete_one oid [] = []"
| "delete_one oid (d # ds) = (if doc_id d = oid then ds else d # delete_one oid ds)"

section \<open>app.py: the expenses handlers\<close>

text \<open>
  The request body of \<open>POST /api/expenses\<close>, a JSON object. The text fields are modelled
  for the values a field can take there: missing, \<open>null\<close>, or a string. \<open>amount\<close> is any
  JSON value, or missing.
\<close>

datatype text_field = Absent | Null | Str string

record 'f payload =
  p_date :: text_field
  p_type :: text_field
  p_category :: text_field
  p_amount :: "'f json option"
  p_note :: text_field

text \<open>
  What the handler takes from its surroundings: the UTC date as
  \<open>strftime('%Y-%m-%d')\<close> prints it, and the \<open>ObjectId\<close> the driver generates for an
  inserted document.
\<close>

record env =
  today :: string
  new_oid :: string

text \<open>\<open>payload.get(key, default)\<close>: the default is used only when the key is missing.\<close>

fun get_default :: "text_field \<Rightarrow> string \<Rightarrow> string option" where
  "get_default Absent dflt = Some dflt"
| "get_default Null dflt = None"
| "get_default (Str s) dflt = Some s"

text \<open>\<open>payload.get('date') or today\<close>: \<open>None\<close> and the empty string are falsy.\<close>

fun date_or_today :: "text_field \<Rightarrow> string \<Rightarrow> string" where
  "date_or_today (Str s) t = (if s = [] then t else s)"
| "date_or_today Absent t = t"
| "date_or_today Null t = t"

definition opt_json :: "string option \<Rightarrow> 'f json" where
  "opt_json v = (case v of None \<Rightarrow> JNull | Some s \<Rightarrow> JStr s)"

definition api_add_entry ::
  "'f float_ops \<Rightarrow> env \<Rightarrow> 'f payload \<Rightarrow> 'f store \<Rightarrow> 'f response \<times> 'f store" where
  "api_add_entry fl e payload st =
     (let entry_date = date_or_today (p_date payload) (today e);
          entry_type = get_default (p_type payload) ''expense'';
          category = get_default (p_category payload) ''general''
      in case py_float fl (case p_amount payload of None \<Rightarrow> JInt 0 | Some v \<Rightarrow> v) of
           Inl ex \<Rightarrow> (Unhandled ex, st)
         | Inr amount \<Rightarrow>
             (let note = get_default (p_note payload) []
              in case st of
                   Document docs \<Rightarrow>
                     (case insert_one
                             \<lparr>doc_id = new_oid e, doc_date = entry_date, doc_type = entry_type,
                              doc_category = category, doc_amount = amount, doc_note = note\<rparr>
                             docs of
                        Inl ex \<Rightarrow> (Unhandled ex, st)
                      | Inr docs' \<Rightarrow>
                          (Json 200 (JObj [(''status'', JStr ''ok''), (''id'', JStr (new_oid e))]),
                           Document docs'))
                 | Relational db \<Rightarrow>
                     (case sql_insert fl entry_date entry_type category amount note db of
                        Inl ex \<Rightarrow> (Unhandled ex, st)
                      | Inr db' \<Rightarrow> (Json 200 (JObj [(''status'', JStr ''ok'')]), Relational db'))))"

definition doc_json :: "'f mongo_doc \<Rightarrow> 'f json" where
  "doc_json r =
     JObj [(''date'', JStr (doc_date r)), (''type'', opt_json (doc_type r)),
           (''category'', opt_json (doc_category r)), (''amount'', JFloat (doc_amount r)),
           (''note'', opt_json (doc_note r)), (''id'', JStr (doc_id r))]"

definition row_json :: "'f entry_row \<Rightarrow> 'f json" where
  "row_json r =
     JObj [(''id'', JInt (row_id r)), (''date'', JStr (row_date r)), (''type'', JStr (row_type r)),
           (''category'', JStr (row_category r)), (''amount'', JFloat (row_amount r)),
           (''note'', opt_json (row_note r))]"

definition api_list_entries :: "'f cursor \<Rightarrow> 'f store \<Rightarrow> 'f response" where
  "api_list_entries cursor st =
     (case st of
        Document docs \<Rightarrow> Json 200 (JObj [(''entries'', JArr (map doc_json (cursor docs)))])
      | Relational db \<Rightarrow> Json 200 (JObj [(''entries'', JArr (map row_json (sql_select_ordered db)))]))"

definition api_delete_entry :: "string \<Rightarrow> 'f store \<Rightarrow> 'f response \<times> 'f store" where
  "api_delete_entry entry_id st =
     (case st of
        Document docs \<Rightarrow>
          (case ObjectId entry_id of
             Some oid \<Rightarrow> (Json 200 (JObj [(''deleted'', JStr entry_id)]), Document (delete_one oid docs))
           | None \<Rightarrow> (Json 400 (JObj [(''error'', JStr (invalid_oid_text entry_id))]), st))
      | Relational db \<Rightarrow>
          (case py_int entry_id of
             None \<Rightarrow> (Json 400 (JObj [(''error'', JStr ''invalid id'')]), st)
           | Some numeric_id \<Rightarrow>
               (case sql_delete numeric_id db of
                  Inl ex \<Rightarrow> (Unhandled ex, st)
                | Inr db' \<Rightarrow> (Json 200 (JObj [(''deleted'', JInt numeric_id)]), Relational db'))))"











text \<open>A sequence of add and delete requests served by one process.\<close>

datatype 'f request = AddEntry env "'f payload" | DeleteEntry string

fun serve :: "'f float_ops \<Rightarrow> 'f request \<Rightarrow> 'f store \<Rightarrow> 'f response \<times> 'f store" where
  "serve fl (AddEntry e payload) st = api_add_entry fl e payload st"
| "serve fl (DeleteEntry entry_id) st = api_delete_entry entry_id st"

fun serve_all :: "'f float_ops \<Rightarrow> 'f request list \<Rightarrow> 'f store \<Rightarrow> 'f store" where
  "serve_all fl [] st = st"
| "serve_all fl (r # rs) st = serve_all fl rs (snd (serve fl r st))"

text \<open>
  A table of coercions for evaluating the handlers on examples: amounts are real numbers,
  each of them a number, every integer converts, and of strings only integer literals are
  understood. The
  examples use no other string than \<open>abc\<close>, which \<open>float\<close> rejects as well; the
  general lemmas hold for every table.
\<close>

definition sample_floats :: "real float_ops" where
  "sample_floats =
     \<lparr>float_of_str = (\<lambda>s. map_option real_of_int (py_int s)),
      float_of_int = (\<lambda>n. Some (real_of_int n)),
      float_is_nan = (\<lambda>x. False)\<rparr>"

section \<open>app.py: the scheme filter\<close>

text \<open>
  \<open>d.get(key, default)\<close> on a dictionary decoded from JSON, held as the list of its
  items; a key occurs once.
\<close>

definition dict_get :: "(string \<times> 'f json) list \<Rightarrow> string \<Rightarrow> 'f json \<Rightarrow> 'f json" where
  "dict_get kvs key dflt = (case map_of kvs key of Some v \<Rightarrow> v | None \<Rightarrow> dflt)"

text \<open>
  \<open>(not param) or (item.get(key, '').lower() == param)\<close>. The right-hand side is evaluated
  only for a non-empty parameter; there, an item that is not a dictionary has no \<open>get\<close>, and
  a field that is not a string has no \<open>lower\<close>.
\<close>

definition field_ok :: "string \<Rightarrow> string \<Rightarrow> 'f json \<Rightarrow> py_exn + bool" where
  "field_ok param key item =
     (if param = [] then Inr True
      else case item of
        JObj kvs \<Rightarrow>
          (case dict_get kvs key (JStr []) of
             JStr v \<Rightarrow> Inr (lower v = param)
           | _ \<Rightarrow> Inl AttributeError)
      | _ \<Rightarrow> Inl AttributeError)"

text \<open>The loop over the loaded items, appending the matches to \<open>results\<close>.\<close>

fun schemes_loop :: "string \<Rightarrow> string \<Rightarrow> 'f json list \<Rightarrow> 'f json list \<Rightarrow> py_exn + 'f json list" where
  "schemes_loop state district [] results = Inr results"
| "schemes_loop state district (item # rest) results =
     (case field_ok state ''state'' item of
        Inl ex \<Rightarrow> Inl ex
      | Inr s_ok \<Rightarrow>
          (case field_ok district ''district'' item of
             Inl ex \<Rightarrow> Inl ex
           | Inr d_ok \<Rightarrow>
               schemes_loop state district rest
                 (if s_ok \<and> d_ok then results @ [item] else results)))"

text \<open>
  \<open>data.get('schemes', [])\<close> and what iterating over it yields: the elements of a list,
  the characters of a string, the keys of a dictionary; other values are not iterable.
\<close>

definition loaded_schemes :: "'f json \<Rightarrow> py_exn + 'f json list" where
  "loaded_schemes data =
     (case data of
        JObj kvs \<Rightarrow>
          (case dict_get kvs ''schemes'' (JArr []) of
             JArr items \<Rightarrow> Inr items
           | JStr s \<Rightarrow> Inr (map (\<lambda>c. JStr [c]) s)
           | JObj kvs' \<Rightarrow> Inr (map (\<lambda>kv. JStr (fst kv)) kvs')
           | _ \<Rightarrow> Inl TypeError)
      | _ \<Rightarrow> Inl AttributeError)"

text \<open>
  The handler: the two query parameters (empty when missing) and the content of
  \<open>schemes.json\<close>, \<open>None\<close> when the file does not exist.
\<close>

definition api_schemes :: "string \<Rightarrow> string \<Rightarrow> 'f json option \<Rightarrow> 'f response" where
  "api_schemes state_arg district_arg file =
     (let state = strip (lower state_arg);
          district = strip (lower district_arg)
      in case file of
           None \<Rightarrow> Json 200 (JObj [(''schemes'', JArr [])])
         | Some data \<Rightarrow>
             (case loaded_schemes data of
                Inl ex \<Rightarrow> Unhandled ex
              | Inr items \<Rightarrow>
                  (case schemes_loop state district items [] of
                     Inl ex \<Rightarrow> Unhandled ex
                   | Inr results \<Rightarrow> Json 200 (JObj [(''schemes'', JArr results)]))))"

text \<open>
  The filter as the specification words it: a record is kept when its state equals the
  state parameter, both trimmed and without regard to case, or the parameter is blank, and
  likewise for the district.
\<close>

definition scheme_field :: "'f json \<Rightarrow> string \<Rightarrow> string" where
  "scheme_field item key =
     (case item of
        JObj kvs \<Rightarrow> (case dict_get kvs key (JStr []) of JStr v \<Rightarrow> v | _ \<Rightarrow> [])
      | _ \<Rightarrow> [])"

definition spec_scheme_kept :: "string \<Rightarrow> string \<Rightarrow> 'f json \<Rightarrow> bool" where
  "spec_scheme_kept state_arg district_arg item =
     ((strip (lower state_arg) = [] \<or>
         strip (lower (scheme_field item ''state'')) = strip (lower state_arg)) \<and>
      (strip (lower district_arg) = [] \<or>
         strip (lower (scheme_field item ''district'')) = strip (lower district_arg)))"

text \<open>
  The condition with the record's side left untrimmed: the field, in lower case, equals
  the parameter, in lower case and trimmed.
\<close>

definition untrimmed_scheme_kept :: "string \<Rightarrow> string \<Rightarrow> 'f json \<Rightarrow> bool" where
  "untrimmed_scheme_kept state_arg district_arg item =
     ((strip (lower state_arg) = [] \<or>
         lower (scheme_field item ''state'') = strip (lower state_arg)) \<and>
      (strip (lower district_arg) = [] \<or>
         lower (scheme_field item ''district'') = strip (lower district_arg)))"

text \<open>
  What the comparison needs of an item when the parameter is not empty: a dictionary whose
  field is a string, or missing.
\<close>

definition text_or_missing :: "(string \<times> 'f json) list \<Rightarrow> string \<Rightarrow> bool" where
  "text_or_missing kvs key =
     (case map_of kvs key of None \<Rightarrow> True | Some (JStr v) \<Rightarrow> True | Some _ \<Rightarrow> False)"

definition comparable :: "string \<Rightarrow> string \<Rightarrow> 'f json \<Rightarrow> bool" where
  "comparable param key item =
     (param = [] \<or> (case item of JObj kvs \<Rightarrow> text_or_missing kvs key | _ \<Rightarrow> False))"

definition comparable_items :: "string \<Rightarrow> string \<Rightarrow> 'f json list \<Rightarrow> bool" where
  "comparable_items state_arg district_arg items =
     list_all (\<lambda>item. comparable (strip (lower state_arg)) ''state'' item \<and>
                      comparable (strip (lower district_arg)) ''district'' item) items"

section \<open>Properties of the scheduler\<close>

lemma strip_by_idem: "strip_by blank (strip_by blank s) = strip_by blank s"
proof -
  define t where "t = dropWhile blank s"
  define u where "u = rev (dropWhile blank (rev t))"
  have "dropWhile blank u = u"
    by (metis dropWhile_eq_self_iff hd_dropWhile last_appendR last_rev
        rev.simps(1) rev_rev_ident t_def takeWhile_dropWhile_id u_def)
  then show ?thesis
    unfolding strip_by_def t_def[symmetric] u_def[symmetric]
    unfolding u_def by (simp add: dropWhile_idem)
qed

lemma strip_idem: "strip (strip s) = strip s"
  by (simp add: strip_def strip_by_idem)

lemma get_pesticide_schedule_strip:
  "get_pesticide_schedule (strip (or_wheat crop)) = get_pesticide_schedule crop"
proof (cases "strip (or_wheat crop) = []")
  case True
  have "get_pesticide_schedule [] = wheat_schedule"
    by (simp add: get_pesticide_schedule_def or_wheat_def SCHEDULES_def strip_def strip_by_def
        is_space_def)
  moreover have "get_pesticide_schedule crop = wheat_schedule"
    unfolding get_pesticide_schedule_def Let_def True by (simp add: SCHEDULES_def)
  ultimately show ?thesis
    by (simp add: True)
next
  case False
  then have "or_wheat (strip (or_wheat crop)) = strip (or_wheat crop)"
    by (simp add: or_wheat_def)
  then show ?thesis
    by (simp add: get_pesticide_schedule_def strip_idem)
qed

lemma get_pesticide_schedule_cases:
  "get_pesticide_schedule crop = wheat_schedule \<or> get_pesticide_schedule crop = rice_schedule"
  by (simp add: get_pesticide_schedule_def SCHEDULES_def Let_def)

lemma next_pesticide_recommendation_unfold:
  "next_pesticide_recommendation crop from_date =
     recommend_in (get_pesticide_schedule crop) from_date"
  by (simp add: next_pesticide_recommendation_def get_pesticide_schedule_strip)

text \<open>
  The loop returns what the specification describes exactly when every due date it
  computes is a date; the first one that is not ends it with \<open>OverflowError\<close>.
\<close>

lemma schedule_loop_examined:
  "schedule_loop sowing from_date schedule =
     (if list_all (\<lambda>item. valid_date (sowing + days_after_sowing item))
           (examined sowing from_date schedule)
      then Inr (case find (\<lambda>item. sowing + days_after_sowing item \<ge> from_date) schedule of
                  None \<Rightarrow> NoUpcomingTasks
                | Some item \<Rightarrow> Due (sowing + days_after_sowing item) item)
      else Inl OverflowError)"
proof (induction schedule)
  case Nil
  show ?case by simp
next
  case (Cons item rest)
  show ?case
  proof (cases "valid_date (sowing + days_after_sowing item)")
    case True
    then have "date_plus_days sowing (days_after_sowing item) =
                 Inr (sowing + days_after_sowing item)"
      by (simp add: date_plus_days_def valid_date_def)
    with True Cons.IH show ?thesis by simp
  next
    case False
    then have "date_plus_days sowing (days_after_sowing item) = Inl OverflowError"
      by (auto simp: date_plus_days_def valid_date_def Let_def)
    with False show ?thesis by simp
  qed
qed

text \<open>
  Claim C9, with the range of \<open>datetime.date\<close> made explicit. For every schedule, and so
  for the schedule of every crop, and for every start date: when the date seven days
  before the start date is representable, and so is every due date computed up to and
  including the first one on or after the start date, the function takes that sowing
  date, computes each due date as the sowing date plus the item's offset, and returns the
  first item in schedule order that is due on or after the start date, with its due date,
  or the sentinel when no item qualifies. Otherwise the date arithmetic raises
  \<open>OverflowError\<close>.
\<close>

theorem recommendation_first_due:
  "recommend_in schedule from_date =
     (if valid_date (from_date - 7) \<and>
         list_all (\<lambda>item. valid_date (from_date - 7 + days_after_sowing item))
           (examined (from_date - 7) from_date schedule)
      then Inr (spec_next_recommendation schedule from_date)
      else Inl OverflowError) \<and>
   next_pesticide_recommendation crop from_date =
     recommend_in (get_pesticide_schedule crop) from_date"
proof -
  have "recommend_in schedule from_date =
     (if valid_date (from_date - 7) \<and>
         list_all (\<lambda>item. valid_date (from_date - 7 + days_after_sowing item))
           (examined (from_date - 7) from_date schedule)
      then Inr (spec_next_recommendation schedule from_date)
      else Inl OverflowError)"
  proof (cases "valid_date (from_date - 7)")
    case True
    then have "date_plus_days from_date (- 7) = Inr (from_date - 7)"
      by (simp add: date_plus_days_def valid_date_def)
    then show ?thesis
      by (simp add: recommend_in_def spec_next_recommendation_def schedule_loop_examined True)
  next
    case False
    then have "date_plus_days from_date (- 7) = Inl OverflowError"
      by (auto simp: date_plus_days_def valid_date_def Let_def)
    then show ?thesis
      by (simp add: recommend_in_def False)
  qed
  then show ?thesis
    by (simp add: next_pesticide_recommendation_unfold)
qed

text \<open>
  On 9999-12-28 the later Wheat items would be due after \<open>date.max\<close>, but the first one is
  due on 9999-12-31 and is returned; on 9999-12-29 it is not representable either.
\<close>

theorem recommendation_first_due_witness:
  "recommend_in wheat_schedule 3652056 = Inr (Due 3652059 (hd wheat_schedule)) \<and>
   next_pesticide_recommendation ''Wheat'' 3652056 = Inr (Due 3652059 (hd wheat_schedule)) \<and>
   spec_next_recommendation wheat_schedule 3652056 = Due 3652059 (hd wheat_schedule) \<and>
   recommend_in wheat_schedule 3652057 = Inl OverflowError \<and>
   recommend_in [] 738886 = Inr NoUpcomingTasks"
proof -
  have c: "get_pesticide_schedule ''Wheat'' = wheat_schedule"
    by (simp add: get_pesticide_schedule_def or_wheat_def SCHEDULES_def strip_def strip_by_def
        is_space_def)
  have d: "spec_next_recommendation wheat_schedule 3652056 = Due 3652059 (hd wheat_schedule)"
    by (simp add: spec_next_recommendation_def wheat_schedule_def)
  have r1: "recommend_in wheat_schedule 3652056 = Inr (Due 3652059 (hd wheat_schedule))"
    and n1: "next_pesticide_recommendation ''Wheat'' 3652056 =
               recommend_in wheat_schedule 3652056"
    using recommendation_first_due[of wheat_schedule 3652056 "''Wheat''"]
    by (simp_all add: c d) (simp add: wheat_schedule_def valid_date_def date_min_def date_max_def)
  have r2: "recommend_in wheat_schedule 3652057 = Inl OverflowError"
    using recommendation_first_due[of wheat_schedule 3652057 "''Wheat''"]
    by (simp add: wheat_schedule_def valid_date_def date_min_def date_max_def)
  have r3: "recommend_in [] 738886 = Inr NoUpcomingTasks"
    using recommendation_first_due[of "[]" 738886 "''Wheat''"]
    by (simp add: spec_next_recommendation_def valid_date_def date_min_def date_max_def)
  show ?thesis
    using r1 n1 r2 r3 d by simp
qed

text \<open>
  On 0001-01-01 the sowing date is not representable: the subtraction raises
  \<open>OverflowError\<close>, where the specification's wording yields the first Wheat item.
\<close>

theorem recommendation_range_counterexample:
  "next_pesticide_recommendation ''Wheat'' 1 = Inl OverflowError \<and>
   spec_next_recommendation (get_pesticide_schedule ''Wheat'') 1 = Due 4 (hd wheat_schedule)"
  by (simp add: next_pesticide_recommendation_unfold recommend_in_def date_plus_days_def
      date_min_def spec_next_recommendation_def get_pesticide_schedule_def or_wheat_def
      SCHEDULES_def strip_def strip_by_def is_space_def wheat_schedule_def)

text \<open>
  Claim C10, with the range of \<open>datetime.date\<close> made explicit. For every crop string
  and every start date the sentinel is never returned. The result is the first item of
  the selected schedule, due on the start date plus its offset minus seven days, whenever
  the sowing date and that due date are representable; otherwise the date arithmetic
  raises \<open>OverflowError\<close>.
\<close>

theorem recommendation_never_sentinel:
  "next_pesticide_recommendation crop from_date \<noteq> Inr NoUpcomingTasks \<and>
   next_pesticide_recommendation crop from_date =
     (let first = hd (get_pesticide_schedule crop);
          due = from_date + (days_after_sowing first - 7)
      in if date_min + 7 \<le> from_date \<and> due \<le> date_max then Inr (Due due first)
         else Inl OverflowError)"
  using get_pesticide_schedule_cases[of crop]
  by (auto simp: next_pesticide_recommendation_unfold recommend_in_def date_plus_days_def
      wheat_schedule_def rice_schedule_def date_min_def date_max_def Let_def)

theorem recommendation_never_sentinel_witness:
  "next_pesticide_recommendation ''Rice'' 738886 \<noteq> Inr NoUpcomingTasks \<and>
   next_pesticide_recommendation ''Rice'' 738886 = Inr (Due 738894 (hd rice_schedule))"
proof -
  have c: "get_pesticide_schedule ''Rice'' = rice_schedule"
    by (simp add: get_pesticide_schedule_def or_wheat_def SCHEDULES_def strip_def strip_by_def is_space_def)
  show ?thesis
    using recommendation_never_sentinel[of "''Rice''" 738886]
    by (simp add: c rice_schedule_def date_min_def date_max_def)
qed

text \<open>
  On 9999-12-27 the first Rice item would be due after \<open>date.max\<close>: no item is returned.
\<close>

theorem recommendation_first_item_counterexample:
  "next_pesticide_recommendation ''Rice'' 3652055 = Inl OverflowError \<and> valid_date 3652055"
  by (simp add: next_pesticide_recommendation_unfold recommend_in_def date_plus_days_def
      date_min_def date_max_def get_pesticide_schedule_def or_wheat_def valid_date_def
      SCHEDULES_def strip_def strip_by_def is_space_def rice_schedule_def)

section \<open>Properties of the stores and the expenses handlers\<close>

subsection \<open>Sorting\<close>

lemma mset_insert_sorted: "mset (insert_sorted before x ys) = add_mset x (mset ys)"
  by (induction ys) auto

lemma mset_sort_stable: "mset (sort_stable before xs) = mset xs"
  unfolding sort_stable_def by (induction xs) (auto simp: mset_insert_sorted)

lemma set_insert_sorted: "set (insert_sorted before x ys) = insert x (set ys)"
  by (induction ys) auto

text \<open>
  The insertion sort orders its input by any relation \<open>le\<close> that the comparison
  \<open>before\<close> decides: \<open>before a b\<close> gives \<open>le a b\<close>, its failure gives \<open>le b a\<close>.
\<close>

lemma sorted_insert_sorted:
  assumes yes: "\<And>a b. before a b \<Longrightarrow> le a b"
    and no: "\<And>a b. \<not> before a b \<Longrightarrow> le b a"
    and trans: "\<And>a b c. le a b \<Longrightarrow> le b c \<Longrightarrow> le a c"
  shows "sorted_wrt le ys \<Longrightarrow> sorted_wrt le (insert_sorted before x ys)"
proof (induction ys)
  case Nil
  then show ?case by simp
next
  case (Cons y ys)
  show ?case
  proof (cases "before x y")
    case True
    then have "le x y" by (rule yes)
    with Cons.prems trans show ?thesis
      using True by auto
  next
    case False
    then have "le y x" by (rule no)
    with Cons False show ?thesis by (auto simp: set_insert_sorted)
  qed
qed

lemma sorted_sort_stable:
  assumes yes: "\<And>a b. before a b \<Longrightarrow> le a b"
    and no: "\<And>a b. \<not> before a b \<Longrightarrow> le b a"
    and trans: "\<And>a b c. le a b \<Longrightarrow> le b c \<Longrightarrow> le a c"
  shows "sorted_wrt le (sort_stable before xs)"
  unfolding sort_stable_def
  by (induction xs) (auto intro: sorted_insert_sorted[OF yes no trans])

lemma row_before_total: "row_before a b \<or> row_before b a"
  unfolding row_before_def by auto

lemma row_before_trans: "row_before a b \<Longrightarrow> row_before b c \<Longrightarrow> row_before a c"
  unfolding row_before_def by auto

lemma sql_select_ordered_sorted: "sorted_wrt row_before (sql_select_ordered db)"
  unfolding sql_select_ordered_def
  using row_before_total row_before_trans by (intro sorted_sort_stable) blast+

lemma sql_select_ordered_mset: "mset (sql_select_ordered db) = mset (entries db)"
  by (simp add: sql_select_ordered_def mset_sort_stable)


lemma index_scan_sorts: "sorts_by_date_desc find_by_index_scan"
proof -
  have "sorted_wrt doc_before (sort_stable (\<lambda>a b. doc_date a > doc_date b) docs)"
    for docs :: "'a mongo_doc list"
    by (rule sorted_sort_stable) (auto simp: doc_before_def)
  then show ?thesis
    by (simp add: sorts_by_date_desc_def find_by_index_scan_def mset_sort_stable)
qed

subsection \<open>Deleting\<close>

text \<open>
  Claim C4. Under the relational store, an id that \<open>int\<close> does not parse is answered with
  the JSON error \<open>invalid id\<close> and status 400: the handler catches the exception, raises
  none itself, and the stored entries are unchanged. The witness has an id with a letter
  and an id that starts with the separator U+001F, which \<open>int\<close> does not skip.
\<close>

theorem delete_malformed_id_reported:
  assumes "py_int entry_id = None"
  shows "api_delete_entry entry_id (Relational db) =
           (Json 400 (JObj [(''error'', JStr ''invalid id'')]), Relational db)"
  using assms by (simp add: api_delete_entry_def)

theorem delete_malformed_id_reported_witness:
  "py_int ''12a'' = None \<and>
   api_delete_entry ''12a''
     (Relational \<lparr>entries = [\<lparr>row_id = 12, row_date = ''2024-01-01'', row_type = ''income'',
                               row_category = ''general'', row_amount = (5::real),
                               row_note = Some []\<rparr>], sequence = 12\<rparr>) =
     (Json 400 (JObj [(''error'', JStr ''invalid id'')]),
      Relational \<lparr>entries = [\<lparr>row_id = 12, row_date = ''2024-01-01'', row_type = ''income'',
                               row_category = ''general'', row_amount = 5,
                               row_note = Some []\<rparr>], sequence = 12\<rparr>) \<and>
   py_int [CHR 0x1F, CHR ''3''] = None \<and>
   api_delete_entry [CHR 0x1F, CHR ''3'']
     (Relational \<lparr>entries = [\<lparr>row_id = 3, row_date = ''2024-01-01'', row_type = ''income'',
                               row_category = ''general'', row_amount = (5::real),
                               row_note = Some []\<rparr>], sequence = 3\<rparr>) =
     (Json 400 (JObj [(''error'', JStr ''invalid id'')]),
      Relational \<lparr>entries = [\<lparr>row_id = 3, row_date = ''2024-01-01'', row_type = ''income'',
                               row_category = ''general'', row_amount = 5,
                               row_note = Some []\<rparr>], sequence = 3\<rparr>)"
proof -
  have a: "py_int ''12a'' = None"
    by (simp add: py_int_def strip_by_def int_space_def c_space_def int_body_def
        max_str_digits_def digit_val_def)
  have b: "py_int [CHR 0x1F, CHR ''3''] = None"
    by (simp add: py_int_def strip_by_def int_space_def c_space_def int_body_def
        max_str_digits_def digit_val_def)
  have c: "api_delete_entry ''12a'' (Relational db) =
             (Json 400 (JObj [(''error'', JStr ''invalid id'')]), Relational db)"
    for db :: "real sqlite_db"
    by (rule delete_malformed_id_reported[OF a])
  have d: "api_delete_entry [CHR 0x1F, CHR ''3''] (Relational db) =
             (Json 400 (JObj [(''error'', JStr ''invalid id'')]), Relational db)"
    for db :: "real sqlite_db"
    by (rule delete_malformed_id_reported[OF b])
  show ?thesis
    by (intro conjI a b c d)
qed

text \<open>
  A no-break space before the digit is skipped, as \<open>int\<close> skips it: the id is 3 and the
  row is deleted.
\<close>

lemma delete_after_no_break_space:
  "py_int [CHR 0xA0, CHR ''3''] = Some 3 \<and>
   api_delete_entry [CHR 0xA0, CHR ''3'']
     (Relational \<lparr>entries = [\<lparr>row_id = 3, row_date = ''2024-01-01'', row_type = ''income'',
                               row_category = ''general'', row_amount = (5::real),
                               row_note = Some []\<rparr>], sequence = 3\<rparr>) =
     (Json 200 (JObj [(''deleted'', JInt 3)]), Relational \<lparr>entries = [], sequence = 3\<rparr>)"
  by (simp add: api_delete_entry_def sql_delete_def int64_min_def int64_max_def py_int_def
      strip_by_def int_space_def c_space_def int_body_def max_str_digits_def digit_val_def)

lemma delete_one_absent: "oid \<notin> set (map doc_id docs) \<Longrightarrow> delete_one oid docs = docs"
  by (induction docs) auto

lemma filter_absent_id: "n \<notin> set (map row_id rs) \<Longrightarrow> filter (\<lambda>r. row_id r \<noteq> n) rs = rs"
  by (induction rs) auto

lemma delete_absent_relational:
  assumes "py_int entry_id = Some n" and "int64_min \<le> n" and "n \<le> int64_max"
    and "n \<notin> set (map row_id (entries db))"
  shows "api_delete_entry entry_id (Relational db) =
           (Json 200 (JObj [(''deleted'', JInt n)]), Relational db)"
  using assms by (simp add: api_delete_entry_def sql_delete_def filter_absent_id)

lemma hex_not_blank: "is_hex c \<Longrightarrow> \<not> c_space c"
  by (auto simp: is_hex_def c_space_def)

lemma fromhex_digits:
  "list_all is_hex s \<Longrightarrow> even (length s) \<Longrightarrow> fromhex s = Some (lower s)"
  by (induction s rule: fromhex.induct) (simp_all add: hex_not_blank lower_def)

lemma delete_absent_document:
  assumes "length entry_id = 24" and "list_all is_hex entry_id"
    and "lower entry_id \<notin> set (map doc_id docs)"
  shows "api_delete_entry entry_id (Document docs) =
           (Json 200 (JObj [(''deleted'', JStr entry_id)]), Document docs)"
  using assms by (simp add: api_delete_entry_def ObjectId_def fromhex_digits delete_one_absent)

text \<open>
  Claim C3 says that every id that parses as an integer and names no stored entry is
  reported as deleted without error. The two lemmas above show this for ids within the
  64-bit range and for 24-digit hexadecimal ids. The id 9223372036854775808 parses, names
  no entry of the empty table, and is not reported as deleted: binding it to the
  \<open>DELETE\<close> statement raises \<open>OverflowError\<close> outside the handler's \<open>try\<close> block.
\<close>

theorem delete_absent_id_out_of_range:
  "py_int ''9223372036854775808'' = Some 9223372036854775808 \<and>
   api_delete_entry ''9223372036854775808''
     (Relational \<lparr>entries = [], sequence = 0\<rparr> :: real store) =
     (Unhandled OverflowError, Relational \<lparr>entries = [], sequence = 0\<rparr>)"
  by (simp add: api_delete_entry_def sql_delete_def int64_min_def int64_max_def
      py_int_def strip_by_def int_space_def c_space_def int_body_def max_str_digits_def digit_val_def)

subsection \<open>Adding\<close>

text \<open>
  Claim C5 says that a successful add returns the identifier of the new entry under
  either store. Under the relational store the entry receives id 1, and the response is
  \<open>{"status": "ok"}\<close>: it carries no id.
\<close>

theorem add_entry_relational_returns_no_id:
  "api_add_entry sample_floats \<lparr>today = ''2024-03-05'', new_oid = ''65a1f0c2b3d4e5f6a7b8c9d0''\<rparr>
     \<lparr>p_date = Absent, p_type = Str ''income'', p_category = Absent,
      p_amount = Some (JInt 5), p_note = Absent\<rparr>
     (Relational \<lparr>entries = [], sequence = 0\<rparr>) =
   (Json 200 (JObj [(''status'', JStr ''ok'')]),
    Relational \<lparr>entries = [\<lparr>row_id = 1, row_date = ''2024-03-05'', row_type = ''income'',
                              row_category = ''general'', row_amount = 5, row_note = Some []\<rparr>],
                sequence = 1\<rparr>)"
  by (simp add: api_add_entry_def sample_floats_def sql_insert_def int64_max_def)

lemma add_entry_document_returns_id:
  assumes "api_add_entry fl e payload (Document docs) = (Json code body, st')"
  shows "body = JObj [(''status'', JStr ''ok''), (''id'', JStr (new_oid e))] \<and>
         (\<exists>d. st' = Document (docs @ [d]) \<and> doc_id d = new_oid e)"
  using assms
  by (auto simp: api_add_entry_def insert_one_def Let_def split: sum.splits if_splits)

lemma add_entry_relational_no_id:
  assumes "api_add_entry fl e payload (Relational db) = (Json code body, st')"
  shows "body = JObj [(''status'', JStr ''ok'')]"
  using assms
  by (auto simp: api_add_entry_def Let_def split: sum.splits)

text \<open>
  Claim C2 says that an amount which does not convert to a floating-point number yields a
  JSON error payload. For the amounts \<open>"abc"\<close> and \<open>null\<close> the exception of \<open>float\<close>
  leaves the handler uncaught, under either store; nothing is stored.
\<close>

theorem add_entry_bad_amount_unhandled:
  "api_add_entry sample_floats \<lparr>today = ''2024-03-05'', new_oid = ''65a1f0c2b3d4e5f6a7b8c9d0''\<rparr>
     \<lparr>p_date = Absent, p_type = Str ''income'', p_category = Absent,
      p_amount = Some (JStr ''abc''), p_note = Absent\<rparr>
     (Relational \<lparr>entries = [], sequence = 0\<rparr>) =
   (Unhandled ValueError, Relational \<lparr>entries = [], sequence = 0\<rparr>) \<and>
   api_add_entry sample_floats \<lparr>today = ''2024-03-05'', new_oid = ''65a1f0c2b3d4e5f6a7b8c9d0''\<rparr>
     \<lparr>p_date = Absent, p_type = Str ''income'', p_category = Absent,
      p_amount = Some JNull, p_note = Absent\<rparr>
     (Document []) =
   (Unhandled TypeError, Document [])"
  by (simp add: api_add_entry_def sample_floats_def py_int_def strip_by_def int_space_def c_space_def
      int_body_def max_str_digits_def digit_val_def)

lemma add_entry_uncoercible_amount:
  assumes "py_float fl (case p_amount payload of None \<Rightarrow> JInt 0 | Some v \<Rightarrow> v) = Inl ex"
  shows "api_add_entry fl e payload st = (Unhandled ex, st)"
  using assms by (simp add: api_add_entry_def)

lemma add_entry_stores_coerced_amount:
  assumes "py_float fl (case p_amount payload of None \<Rightarrow> JInt 0 | Some v \<Rightarrow> v) = Inr a"
    and "api_add_entry fl e payload st = (Json code body, st')"
  shows "case st' of
           Document docs' \<Rightarrow> docs' \<noteq> [] \<and> doc_amount (last docs') = a
         | Relational db' \<Rightarrow> entries db' \<noteq> [] \<and> row_amount (last (entries db')) = a"
  using assms
  by (cases st)
     (auto simp: api_add_entry_def insert_one_def sql_insert_def Let_def
           split: sum.splits if_splits option.splits)

subsection \<open>Listing and totals\<close>

text \<open>
  Claim C1 says that both stores list entries by date descending, ties broken by id
  descending, in the same order. Two entries with the same date are added in turn. The
  document store's query does not ask for an order among them: with a cursor that scans
  the collection, the older entry is listed first, the smaller id before the larger. The
  relational store lists the newer one first.
\<close>

theorem list_entries_document_ties_unbroken:
  "api_list_entries find_by_collection_scan (serve_all sample_floats
      [AddEntry \<lparr>today = ''2024-01-02'', new_oid = ''65a1f0c2b3d4e5f6a7b8c9d0''\<rparr>
         \<lparr>p_date = Str ''2024-01-01'', p_type = Str ''income'', p_category = Absent,
          p_amount = Some (JInt 5), p_note = Absent\<rparr>,
       AddEntry \<lparr>today = ''2024-01-02'', new_oid = ''65a1f0c2b3d4e5f6a7b8c9d1''\<rparr>
         \<lparr>p_date = Str ''2024-01-01'', p_type = Str ''expense'', p_category = Absent,
          p_amount = Some (JInt 3), p_note = Absent\<rparr>]
      (Document [])) =
   Json 200 (JObj [(''entries'', JArr
     [JObj [(''date'', JStr ''2024-01-01''), (''type'', JStr ''income''),
            (''category'', JStr ''general''), (''amount'', JFloat 5), (''note'', JStr []),
            (''id'', JStr ''65a1f0c2b3d4e5f6a7b8c9d0'')],
      JObj [(''date'', JStr ''2024-01-01''), (''type'', JStr ''expense''),
            (''category'', JStr ''general''), (''amount'', JFloat 3), (''note'', JStr []),
            (''id'', JStr ''65a1f0c2b3d4e5f6a7b8c9d1'')]])]) \<and>
   ''65a1f0c2b3d4e5f6a7b8c9d0'' < ''65a1f0c2b3d4e5f6a7b8c9d1'' \<and>
   api_list_entries find_by_collection_scan (serve_all sample_floats
      [AddEntry \<lparr>today = ''2024-01-02'', new_oid = ''65a1f0c2b3d4e5f6a7b8c9d0''\<rparr>
         \<lparr>p_date = Str ''2024-01-01'', p_type = Str ''income'', p_category = Absent,
          p_amount = Some (JInt 5), p_note = Absent\<rparr>,
       AddEntry \<lparr>today = ''2024-01-02'', new_oid = ''65a1f0c2b3d4e5f6a7b8c9d1''\<rparr>
         \<lparr>p_date = Str ''2024-01-01'', p_type = Str ''expense'', p_category = Absent,
          p_amount = Some (JInt 3), p_note = Absent\<rparr>]
      (Relational \<lparr>entries = [], sequence = 0\<rparr>)) =
   Json 200 (JObj [(''entries'', JArr
     [JObj [(''id'', JInt 2), (''date'', JStr ''2024-01-01''), (''type'', JStr ''expense''),
            (''category'', JStr ''general''), (''amount'', JFloat 3), (''note'', JStr [])],
      JObj [(''id'', JInt 1), (''date'', JStr ''2024-01-01''), (''type'', JStr ''income''),
            (''category'', JStr ''general''), (''amount'', JFloat 5), (''note'', JStr [])]])])"
  by (simp add: api_list_entries_def api_add_entry_def sample_floats_def insert_one_def
      sql_insert_def int64_max_def find_by_collection_scan_def sql_select_ordered_def
      sort_stable_def doc_before_def row_before_def doc_json_def row_json_def opt_json_def)

text \<open>
  With a cursor that scans the index backwards the same two documents come in the
  opposite order: the order among equal dates is the store's, not the handler's.
\<close>

lemma list_entries_document_ties_by_index:
  "api_list_entries find_by_index_scan
     (Document
       [\<lparr>doc_id = ''65a1f0c2b3d4e5f6a7b8c9d0'', doc_date = ''2024-01-01'',
         doc_type = Some ''income'', doc_category = Some ''general'', doc_amount = (5::real),
         doc_note = Some []\<rparr>,
        \<lparr>doc_id = ''65a1f0c2b3d4e5f6a7b8c9d1'', doc_date = ''2024-01-01'',
         doc_type = Some ''expense'', doc_category = Some ''general'', doc_amount = 3,
         doc_note = Some []\<rparr>]) =
   Json 200 (JObj [(''entries'', JArr
     [JObj [(''date'', JStr ''2024-01-01''), (''type'', JStr ''expense''),
            (''category'', JStr ''general''), (''amount'', JFloat 3), (''note'', JStr []),
            (''id'', JStr ''65a1f0c2b3d4e5f6a7b8c9d1'')],
      JObj [(''date'', JStr ''2024-01-01''), (''type'', JStr ''income''),
            (''category'', JStr ''general''), (''amount'', JFloat 5), (''note'', JStr []),
            (''id'', JStr ''65a1f0c2b3d4e5f6a7b8c9d0'')]])])"
  by (simp add: api_list_entries_def find_by_index_scan_def sort_stable_def doc_json_def
      opt_json_def)

text \<open>
  The relational listing is sorted by date descending, then id descending, and holds every
  stored row once, whatever the order of insertion. The document listing holds every
  stored document once and is sorted by date descending.
\<close>

lemma list_entries_relational_sorted:
  "api_list_entries cursor (Relational db) =
     Json 200 (JObj [(''entries'', JArr (map row_json (sql_select_ordered db)))]) \<and>
   sorted_wrt row_before (sql_select_ordered db) \<and>
   mset (sql_select_ordered db) = mset (entries db)"
  by (simp add: api_list_entries_def sql_select_ordered_sorted sql_select_ordered_mset)

lemma list_entries_document_sorted_by_date:
  assumes "sorts_by_date_desc cursor"
  shows "api_list_entries cursor (Document docs) =
           Json 200 (JObj [(''entries'', JArr (map doc_json (cursor docs)))]) \<and>
         sorted_wrt (\<lambda>a b. doc_date a \<ge> doc_date b) (cursor docs) \<and>
         mset (cursor docs) = mset docs"
  using assms
  by (simp add: api_list_entries_def sorts_by_date_desc_def doc_before_def[abs_def])




subsection \<open>The types of stored entries\<close>

lemma sql_insert_types:
  assumes "sql_insert fl d t c a n db = Inr db'"
    and "\<forall>r \<in> set (entries db). row_type r = ''expense'' \<or> row_type r = ''income''"
  shows "\<forall>r \<in> set (entries db'). row_type r = ''expense'' \<or> row_type r = ''income''"
  using assms
  by (auto simp: sql_insert_def Let_def split: if_splits option.splits)

lemma sql_delete_types:
  assumes "sql_delete n db = Inr db'"
    and "\<forall>r \<in> set (entries db). row_type r = ''expense'' \<or> row_type r = ''income''"
  shows "\<forall>r \<in> set (entries db'). row_type r = ''expense'' \<or> row_type r = ''income''"
  using assms
  by (auto simp: sql_delete_def split: if_splits)

lemma serve_relational_types:
  assumes "\<forall>r \<in> set (entries db). row_type r = ''expense'' \<or> row_type r = ''income''"
  shows "\<exists>db'. snd (serve fl req (Relational db)) = Relational db' \<and>
           (\<forall>r \<in> set (entries db'). row_type r = ''expense'' \<or> row_type r = ''income'')"
proof (cases req)
  case (AddEntry e payload)
  show ?thesis
    using assms sql_insert_types[OF _ assms]
    by (auto simp: AddEntry api_add_entry_def Let_def split: sum.splits)
next
  case (DeleteEntry entry_id)
  show ?thesis
    using assms sql_delete_types[OF _ assms]
    by (auto simp: DeleteEntry api_delete_entry_def split: sum.splits option.splits)
qed

text \<open>
  The relational store keeps the types of its rows within expense and income: when every
  row of the table has one of the two, then after any sequence of add and delete requests
  the store is still the relational one and every row has one of the two. Amounts are
  floating-point numbers by the type of the column and of the document field.
\<close>

lemma relational_entry_types_invariant:
  assumes "\<forall>r \<in> set (entries db). row_type r = ''expense'' \<or> row_type r = ''income''"
  shows "\<exists>db'. serve_all fl reqs (Relational db) = Relational db' \<and>
           (\<forall>r \<in> set (entries db'). row_type r = ''expense'' \<or> row_type r = ''income'')"
  using assms
proof (induction reqs arbitrary: db)
  case Nil
  then show ?case by simp
next
  case (Cons req reqs)
  from serve_relational_types[OF Cons.prems, of fl req]
  obtain db1 where s: "snd (serve fl req (Relational db)) = Relational db1"
    and t: "\<forall>r \<in> set (entries db1). row_type r = ''expense'' \<or> row_type r = ''income''"
    by blast
  from Cons.IH[OF t] show ?case
    by (simp add: s)
qed

lemma relational_entry_types_invariant_example:
  "serve_all sample_floats
     [AddEntry \<lparr>today = ''2024-01-02'', new_oid = ''65a1f0c2b3d4e5f6a7b8c9d0''\<rparr>
        \<lparr>p_date = Absent, p_type = Str ''income'', p_category = Absent,
         p_amount = Some (JInt 5), p_note = Absent\<rparr>,
      AddEntry \<lparr>today = ''2024-01-02'', new_oid = ''65a1f0c2b3d4e5f6a7b8c9d1''\<rparr>
        \<lparr>p_date = Absent, p_type = Str ''gift'', p_category = Absent,
         p_amount = Some (JInt 3), p_note = Absent\<rparr>,
      AddEntry \<lparr>today = ''2024-01-02'', new_oid = ''65a1f0c2b3d4e5f6a7b8c9d2''\<rparr>
        \<lparr>p_date = Absent, p_type = Absent, p_category = Absent,
         p_amount = None, p_note = Null\<rparr>,
      DeleteEntry ''1'']
     (Relational \<lparr>entries = [], sequence = 0\<rparr>) =
   Relational \<lparr>entries = [\<lparr>row_id = 2, row_date = ''2024-01-02'', row_type = ''expense'',
                            row_category = ''general'', row_amount = 0, row_note = None\<rparr>],
               sequence = 2\<rparr> \<and>
   list_all (\<lambda>r. row_type r = ''expense'' \<or> row_type r = ''income'')
     [\<lparr>row_id = 2, row_date = ''2024-01-02'', row_type = ''expense'',
       row_category = ''general'', row_amount = (0::real), row_note = None\<rparr>]"
proof -
  have e: "\<forall>r \<in> set (entries (\<lparr>entries = [], sequence = 0\<rparr> :: real sqlite_db)).
             row_type r = ''expense'' \<or> row_type r = ''income''"
    by simp
  have run: "serve_all sample_floats
     [AddEntry \<lparr>today = ''2024-01-02'', new_oid = ''65a1f0c2b3d4e5f6a7b8c9d0''\<rparr>
        \<lparr>p_date = Absent, p_type = Str ''income'', p_category = Absent,
         p_amount = Some (JInt 5), p_note = Absent\<rparr>,
      AddEntry \<lparr>today = ''2024-01-02'', new_oid = ''65a1f0c2b3d4e5f6a7b8c9d1''\<rparr>
        \<lparr>p_date = Absent, p_type = Str ''gift'', p_category = Absent,
         p_amount = Some (JInt 3), p_note = Absent\<rparr>,
      AddEntry \<lparr>today = ''2024-01-02'', new_oid = ''65a1f0c2b3d4e5f6a7b8c9d2''\<rparr>
        \<lparr>p_date = Absent, p_type = Absent, p_category = Absent,
         p_amount = None, p_note = Null\<rparr>,
      DeleteEntry ''1'']
     (Relational \<lparr>entries = [], sequence = 0\<rparr>) =
   Relational \<lparr>entries = [\<lparr>row_id = 2, row_date = ''2024-01-02'', row_type = ''expense'',
                            row_category = ''general'', row_amount = 0, row_note = None\<rparr>],
               sequence = 2\<rparr>"
    by (simp add: api_add_entry_def api_delete_entry_def sample_floats_def sql_insert_def
        sql_delete_def int64_min_def int64_max_def py_int_def strip_by_def int_space_def c_space_def int_body_def max_str_digits_def
        digit_val_def)
  from relational_entry_types_invariant[OF e, of sample_floats
      "[AddEntry \<lparr>today = ''2024-01-02'', new_oid = ''65a1f0c2b3d4e5f6a7b8c9d0''\<rparr>
        \<lparr>p_date = Absent, p_type = Str ''income'', p_category = Absent,
         p_amount = Some (JInt 5), p_note = Absent\<rparr>,
      AddEntry \<lparr>today = ''2024-01-02'', new_oid = ''65a1f0c2b3d4e5f6a7b8c9d1''\<rparr>
        \<lparr>p_date = Absent, p_type = Str ''gift'', p_category = Absent,
         p_amount = Some (JInt 3), p_note = Absent\<rparr>,
      AddEntry \<lparr>today = ''2024-01-02'', new_oid = ''65a1f0c2b3d4e5f6a7b8c9d2''\<rparr>
        \<lparr>p_date = Absent, p_type = Absent, p_category = Absent,
         p_amount = None, p_note = Null\<rparr>,
      DeleteEntry ''1'']"]
  show ?thesis
    unfolding run by (simp add: list_all_iff)
qed

text \<open>
  Claim C7 says that every entry a store persists has type expense or income, under
  either store. The document store accepts an entry of type \<open>gift\<close> and persists it:
  nothing on that path checks the type, which the relational schema does.
\<close>

theorem document_store_persists_any_type:
  "serve_all sample_floats
     [AddEntry \<lparr>today = ''2024-01-02'', new_oid = ''65a1f0c2b3d4e5f6a7b8c9d0''\<rparr>
        \<lparr>p_date = Absent, p_type = Str ''gift'', p_category = Absent,
         p_amount = Some (JInt 3), p_note = Absent\<rparr>]
     (Document []) =
   Document [\<lparr>doc_id = ''65a1f0c2b3d4e5f6a7b8c9d0'', doc_date = ''2024-01-02'',
              doc_type = Some ''gift'', doc_category = Some ''general'', doc_amount = 3,
              doc_note = Some []\<rparr>]"
  by (simp add: api_add_entry_def sample_floats_def insert_one_def)

section \<open>Properties of the scheme filter\<close>

lemma field_ok_comparable:
  assumes "key = ''state'' \<or> key = ''district''"
  shows "field_ok param key item =
           (if comparable param key item
            then Inr (param = [] \<or> lower (scheme_field item key) = param)
            else Inl AttributeError)"
  using assms
  by (auto simp: comparable_def field_ok_def scheme_field_def dict_get_def text_or_missing_def
      split: json.splits option.splits)

text \<open>
  The loop appends the kept items in order, and fails on the first item that a non-empty
  parameter cannot be compared with, always with \<open>AttributeError\<close>.
\<close>

lemma schemes_loop_filter:
  "schemes_loop (strip (lower state_arg)) (strip (lower district_arg)) items results =
     (if comparable_items state_arg district_arg items
      then Inr (results @ filter (untrimmed_scheme_kept state_arg district_arg) items)
      else Inl AttributeError)"
proof (induction items arbitrary: results)
  case Nil
  show ?case by (simp add: comparable_items_def)
next
  case (Cons item rest)
  have rest: "comparable_items state_arg district_arg (item # rest) =
                (comparable (strip (lower state_arg)) ''state'' item \<and>
                 comparable (strip (lower district_arg)) ''district'' item \<and>
                 comparable_items state_arg district_arg rest)"
    by (simp add: comparable_items_def)
  have kept: "untrimmed_scheme_kept state_arg district_arg item =
                ((strip (lower state_arg) = [] \<or>
                    lower (scheme_field item ''state'') = strip (lower state_arg)) \<and>
                 (strip (lower district_arg) = [] \<or>
                    lower (scheme_field item ''district'') = strip (lower district_arg)))"
    by (simp add: untrimmed_scheme_kept_def)
  show ?case
    unfolding rest
    by (simp add: field_ok_comparable Cons.IH kept)
qed

lemma comparable_items_blank:
  assumes "strip (lower state_arg) = []" and "strip (lower district_arg) = []"
  shows "comparable_items state_arg district_arg items"
    and "filter (untrimmed_scheme_kept state_arg district_arg) items = items"
  using assms
  by (simp_all add: comparable_items_def comparable_def untrimmed_scheme_kept_def list_all_iff)

text \<open>
  Claim C8, with the trimming where the code has it. The filter returns, in the order of
  the source, exactly the records whose state in lower case equals the state parameter in
  lower case and trimmed, or for which that parameter is blank, and likewise for the
  district: the record's side is not trimmed. This holds when every item can be compared
  with the non-blank parameters (it is a dictionary and the field is text or missing);
  otherwise the request fails with \<open>AttributeError\<close>. When both parameters are blank every
  loaded item is returned unchanged and in order, whatever the items are.
\<close>

theorem scheme_filter_keeps_matches:
  assumes "loaded_schemes data = Inr items"
  shows "api_schemes state_arg district_arg (Some data) =
           (if comparable_items state_arg district_arg items
            then Json 200 (JObj [(''schemes'',
                   JArr (filter (untrimmed_scheme_kept state_arg district_arg) items))])
            else Unhandled AttributeError) \<and>
         (strip (lower state_arg) = [] \<and> strip (lower district_arg) = [] \<longrightarrow>
            api_schemes state_arg district_arg (Some data) =
              Json 200 (JObj [(''schemes'', JArr items)]))"
proof -
  have main: "api_schemes state_arg district_arg (Some data) =
           (if comparable_items state_arg district_arg items
            then Json 200 (JObj [(''schemes'',
                   JArr (filter (untrimmed_scheme_kept state_arg district_arg) items))])
            else Unhandled AttributeError)"
    using assms by (simp add: api_schemes_def Let_def schemes_loop_filter)
  moreover have "api_schemes state_arg district_arg (Some data) =
                   Json 200 (JObj [(''schemes'', JArr items)])"
    if "strip (lower state_arg) = []" and "strip (lower district_arg) = []"
    using comparable_items_blank[OF that, of items] main by simp
  ultimately show ?thesis by blast
qed

theorem scheme_filter_keeps_matches_witness:
  "loaded_schemes (JObj [(''schemes'', JArr
      [JObj [(''name'', JStr ''Crop cover''), (''state'', JStr ''Goa''),
             (''district'', JStr ''North Goa'')],
       JObj [(''name'', JStr ''Soil card''), (''state'', JStr ''Kerala'')],
       JObj [(''name'', JStr ''Credit''), (''state'', JNull)]])] :: real json) =
     Inr [JObj [(''name'', JStr ''Crop cover''), (''state'', JStr ''Goa''),
                (''district'', JStr ''North Goa'')],
          JObj [(''name'', JStr ''Soil card''), (''state'', JStr ''Kerala'')],
          JObj [(''name'', JStr ''Credit''), (''state'', JNull)]] \<and>
   api_schemes [] '' north GOA ''
     (Some (JObj [(''schemes'', JArr
      [JObj [(''name'', JStr ''Crop cover''), (''state'', JStr ''Goa''),
             (''district'', JStr ''North Goa'')],
       JObj [(''name'', JStr ''Soil card''), (''state'', JStr ''Kerala'')],
       JObj [(''name'', JStr ''Credit''), (''state'', JNull)]])] :: real json)) =
     Json 200 (JObj [(''schemes'', JArr
       [JObj [(''name'', JStr ''Crop cover''), (''state'', JStr ''Goa''),
              (''district'', JStr ''North Goa'')]])]) \<and>
   api_schemes ''goa'' []
     (Some (JObj [(''schemes'', JArr
      [JObj [(''name'', JStr ''Crop cover''), (''state'', JStr ''Goa''),
             (''district'', JStr ''North Goa'')],
       JObj [(''name'', JStr ''Soil card''), (''state'', JStr ''Kerala'')],
       JObj [(''name'', JStr ''Credit''), (''state'', JNull)]])] :: real json)) =
     Unhandled AttributeError \<and>
   strip (lower ''  '') = [] \<and>
   api_schemes ''  '' []
     (Some (JObj [(''schemes'', JArr
      [JObj [(''name'', JStr ''Crop cover''), (''state'', JStr ''Goa''),
             (''district'', JStr ''North Goa'')],
       JObj [(''name'', JStr ''Soil card''), (''state'', JStr ''Kerala'')],
       JObj [(''name'', JStr ''Credit''), (''state'', JNull)]])] :: real json)) =
     Json 200 (JObj [(''schemes'', JArr
       [JObj [(''name'', JStr ''Crop cover''), (''state'', JStr ''Goa''),
              (''district'', JStr ''North Goa'')],
        JObj [(''name'', JStr ''Soil card''), (''state'', JStr ''Kerala'')],
        JObj [(''name'', JStr ''Credit''), (''state'', JNull)]])])"
proof -
  define items :: "real json list" where "items =
      [JObj [(''name'', JStr ''Crop cover''), (''state'', JStr ''Goa''),
             (''district'', JStr ''North Goa'')],
       JObj [(''name'', JStr ''Soil card''), (''state'', JStr ''Kerala'')],
       JObj [(''name'', JStr ''Credit''), (''state'', JNull)]]"
  have l: "loaded_schemes (JObj [(''schemes'', JArr items)]) = Inr items"
    by (simp add: loaded_schemes_def dict_get_def)
  have s: "strip (lower '' north GOA '') = ''north goa''" "strip (lower ''goa'') = ''goa''"
          "strip (lower ''  '') = []" "strip (lower []) = []"
    by (simp_all add: strip_def strip_by_def lower_def lower_char_def upper_letters_def
        lower_letters_def is_space_def)
  have c1: "comparable_items [] '' north GOA '' items"
    unfolding comparable_items_def s items_def
    by (simp add: comparable_def text_or_missing_def)
  have c2: "\<not> comparable_items ''goa'' [] items"
    unfolding comparable_items_def s items_def
    by (simp add: comparable_def text_or_missing_def)
  have f: "filter (untrimmed_scheme_kept [] '' north GOA '') items =
             [JObj [(''name'', JStr ''Crop cover''), (''state'', JStr ''Goa''),
                    (''district'', JStr ''North Goa'')]]"
    unfolding untrimmed_scheme_kept_def s items_def
    by (simp add: scheme_field_def dict_get_def lower_def lower_char_def upper_letters_def
        lower_letters_def)
  have g1: "api_schemes [] '' north GOA '' (Some (JObj [(''schemes'', JArr items)])) =
              Json 200 (JObj [(''schemes'', JArr
                [JObj [(''name'', JStr ''Crop cover''), (''state'', JStr ''Goa''),
                       (''district'', JStr ''North Goa'')]])])"
    using scheme_filter_keeps_matches[OF l, of "[]" "'' north GOA ''"] c1 f by simp
  have g2: "api_schemes ''goa'' [] (Some (JObj [(''schemes'', JArr items)])) =
              Unhandled AttributeError"
    using scheme_filter_keeps_matches[OF l, of "''goa''" "[]"] c2 by simp
  have g3: "api_schemes ''  '' [] (Some (JObj [(''schemes'', JArr items)])) =
              Json 200 (JObj [(''schemes'', JArr items)])"
    using scheme_filter_keeps_matches[OF l, of "''  ''" "[]"] s by blast
  show ?thesis
    using g1 g2 g3 l s(3) unfolding items_def by blast
qed

text \<open>
  A record whose state is \<open>Goa\<close> followed by a blank equals the parameter \<open>goa\<close> once
  both are trimmed and in lower case, so the specification's condition keeps it; the
  filter drops it.
\<close>

theorem scheme_filter_untrimmed_counterexample:
  "api_schemes ''goa'' []
     (Some (JObj [(''schemes'', JArr [JObj [(''state'', JStr ''Goa '')]])] :: real json)) =
     Json 200 (JObj [(''schemes'', JArr [])]) \<and>
   spec_scheme_kept ''goa'' [] (JObj [(''state'', JStr ''Goa '')] :: real json)"
  by (simp add: api_schemes_def loaded_schemes_def dict_get_def field_ok_def
      spec_scheme_kept_def scheme_field_def strip_def strip_by_def is_space_def lower_def
      lower_char_def upper_letters_def lower_letters_def)

end
